theory Spec2Isabelle
  imports Main "HOL-Library.Word"
begin

section \<open>The pod-affinity mutating webhook (pkg/mutatingwebhook/mutatingwebhook.go)\<close>

text \<open>
  A shallow embedding of the admission path (\<open>Admit\<close>, \<open>mutatePodAffinity\<close>,
  \<open>mergeAffinityWithAffinityAssistant\<close>, \<open>podAffinityTermUsingAffinityAssistant\<close>,
  \<open>getPodAffinityValue\<close>, \<open>generateJsonPatch\<close>) and of the reconcile path
  (\<open>Reconcile\<close>, \<open>reconcileMutatingWebhook\<close>).

  Go strings are \<open>string\<close> (a list of 8-bit characters). A Go map that may be \<open>nil\<close>
  is an optional partial function, a pointer that may be \<open>nil\<close> is an \<open>option\<close>. A
  slice is a list, and an optional list (\<open>None\<close> is \<open>nil\<close>) where the reconcile path can
  meet a \<open>nil\<close> slice on one side of \<open>kmp.SafeEqual\<close> and an empty one on the other: the
  byte slices and the slices of a label selector. Functions of other modules (the Kubernetes decoder,
  \<open>encoding/json\<close>, \<open>jsonpatch.CreatePatch\<close>, \<open>sha256.Sum256\<close>, the constants of
  \<open>tektoncd/pipeline/pkg/workspace\<close>) are not part of this file: the functions below
  take them as the fields of a record of dependencies.
\<close>

subsection \<open>The part of the Kubernetes pod the webhook touches\<close>

record LabelSelectorRequirement =
  Key :: string
  Operator :: string
  Values :: "string list option"

record LabelSelector =
  MatchLabels :: "(string \<rightharpoonup> string) option"
  MatchExpressions :: "LabelSelectorRequirement list option"

record PodAffinityTerm =
  LabelSelector :: "LabelSelector option"
  Namespaces :: "string list"
  TopologyKey :: string
  NamespaceSelector :: "LabelSelector option"

typedecl WeightedPodAffinityTerm
typedecl NodeAffinity
typedecl PodAntiAffinity

record PodAffinity =
  RequiredDuringSchedulingIgnoredDuringExecution :: "PodAffinityTerm list"
  PreferredDuringSchedulingIgnoredDuringExecution :: "WeightedPodAffinityTerm list"

record Affinity =
  NodeAffinity :: "NodeAffinity option"
  PodAffinity :: "PodAffinity option"
  PodAntiAffinity :: "PodAntiAffinity option"

record PodSpec =
  Affinity :: "Affinity option"

record Pod =
  Labels :: "(string \<rightharpoonup> string) option"
  Annotations :: "(string \<rightharpoonup> string) option"
  Spec :: PodSpec

text \<open>\<open>var pod corev1.Pod\<close>: the zero value.\<close>

definition zeroPod :: Pod where
  "zeroPod = \<lparr>Labels = None, Annotations = None, Spec = \<lparr>Affinity = None\<rparr>\<rparr>"

text \<open>\<open>v, found := m[k]\<close>: reading a \<open>nil\<close> map finds nothing.\<close>

definition index :: "('k \<rightharpoonup> 'v) option \<Rightarrow> 'k \<Rightarrow> 'v option" where
  "index m k = (case m of None \<Rightarrow> None | Some f \<Rightarrow> f k)"

subsection \<open>The request, the response and the dependencies of the admission path\<close>

record AdmissionRequest =
  Raw :: string

record 'bytes AdmissionResponse =
  Patch :: 'bytes
  Allowed :: bool
  PatchType :: "string option"
  Result :: "string option"

text \<open>\<open>sha256.Sum256\<close> returns a \<open>[32]byte\<close>.\<close>

typedef digest = "{bs :: 8 word list. length bs = 32}"
  by (rule exI [of _ "replicate 32 0"]) simp

text \<open>
  \<open>Decode\<close> is \<open>codecs.UniversalDeserializer().Decode(raw, &gvkPod, &pod)\<close>: from the
  payload and the pod it is asked to fill, the pod after the call and the error
  (\<open>None\<close> is Go's \<open>nil\<close>). \<open>Encode\<close> is \<open>json.NewEncoder(buf).Encode(v)\<close>: the bytes
  written to the buffer and the error. \<open>CreatePatch\<close> is \<open>jsonpatch.CreatePatch\<close>,
  \<open>Marshal\<close> is \<open>json.Marshal\<close> on the patch.
\<close>

record ('doc, 'op, 'bytes) deps =
  Decode :: "string \<Rightarrow> Pod \<Rightarrow> Pod \<times> string option"
  Encode :: "Pod \<Rightarrow> 'doc \<times> string option"
  CreatePatch :: "'doc \<Rightarrow> 'doc \<Rightarrow> 'op list \<times> string option"
  Marshal :: "'op list \<Rightarrow> 'bytes \<times> string option"
  Sum256 :: "string \<Rightarrow> digest"
  LabelInstance :: string
  AnnotationAffinityAssistantName :: string

subsection \<open>getPodAffinityValue\<close>

definition hexDigit :: "nat \<Rightarrow> char" where
  "hexDigit n = ''0123456789abcdef'' ! n"

text \<open>\<open>fmt.Sprintf("%x", bytes)\<close>: two lower-case hexadecimal digits for each byte.\<close>

definition sprintf_x :: "8 word list \<Rightarrow> string" where
  "sprintf_x bs = concat (map (\<lambda>b. [hexDigit (unat b div 16), hexDigit (unat b mod 16)]) bs)"

text \<open>
  \<open>hashString[:10]\<close> is in range: the digest has 32 bytes, so \<open>hashString\<close> has 64
  characters (lemma \<open>length_sprintf_x_digest\<close> below), and the slice is \<open>take 10\<close>.
\<close>

definition getPodAffinityValue :: "(string \<Rightarrow> digest) \<Rightarrow> string \<Rightarrow> string" where
  "getPodAffinityValue sum256 pipelineRunName =
     (let hashBytes = sum256 pipelineRunName;
          hashString = sprintf_x (Rep_digest hashBytes)
      in ''custom-pod-affinity'' @ ''-'' @ take 10 hashString)"

subsection \<open>The affinity merge\<close>

definition podAffinityTermUsingAffinityAssistant ::
  "('doc, 'op, 'bytes) deps \<Rightarrow> string \<Rightarrow> PodAffinityTerm" where
  "podAffinityTermUsingAffinityAssistant L affinityAssistantName =
     \<lparr>LabelSelector = Some \<lparr>MatchLabels = Some [LabelInstance L \<mapsto> affinityAssistantName],
                             MatchExpressions = None\<rparr>,
      Namespaces = [],
      TopologyKey = ''kubernetes.io/hostname'',
      NamespaceSelector = None\<rparr>"

definition mergeAffinityWithAffinityAssistant ::
  "('doc, 'op, 'bytes) deps \<Rightarrow> Affinity \<Rightarrow> string \<Rightarrow> Affinity" where
  "mergeAffinityWithAffinityAssistant L affinity podAffinityName =
     (let podAffinityTerm = podAffinityTermUsingAffinityAssistant L podAffinityName;
          pa = (case PodAffinity affinity of
                  None \<Rightarrow> \<lparr>RequiredDuringSchedulingIgnoredDuringExecution = [],
                            PreferredDuringSchedulingIgnoredDuringExecution = []\<rparr>
                | Some a \<Rightarrow> a)
      in affinity\<lparr>PodAffinity := Some (pa\<lparr>RequiredDuringSchedulingIgnoredDuringExecution :=
           RequiredDuringSchedulingIgnoredDuringExecution pa @ [podAffinityTerm]\<rparr>)\<rparr>)"

definition mutatePodAffinity :: "('doc, 'op, 'bytes) deps \<Rightarrow> Pod \<Rightarrow> string \<Rightarrow> Pod" where
  "mutatePodAffinity L p pipelineRunName =
     (if index (Annotations p) (AnnotationAffinityAssistantName L) \<noteq> None then p
      else
        let affinity = (case Affinity (Spec p) of
                          None \<Rightarrow> \<lparr>NodeAffinity = None, PodAffinity = None, PodAntiAffinity = None\<rparr>
                        | Some a \<Rightarrow> a);
            podAffinityName = getPodAffinityValue (Sum256 L) pipelineRunName
        in p\<lparr>Spec := (Spec p)\<lparr>Affinity :=
             Some (mergeAffinityWithAffinityAssistant L affinity podAffinityName)\<rparr>\<rparr>)"

subsection \<open>generateJsonPatch and Admit\<close>

text \<open>
  The errors of the encoder, of \<open>CreatePatch\<close> and of \<open>Marshal\<close> are printed at most
  (\<open>fmt.Printf\<close>) and the function goes on with the values returned beside them.
\<close>

definition generateJsonPatch :: "('doc, 'op, 'bytes) deps \<Rightarrow> Pod \<Rightarrow> Pod \<Rightarrow> 'bytes" where
  "generateJsonPatch L origin target =
     (let targetBytes = fst (Encode L target);
          originBytes = fst (Encode L origin);
          (patch, e) = CreatePatch L originBytes targetBytes;
          (bytes, err) = Marshal L patch
      in bytes)"

text \<open>
  Lines 224 to 233 of \<open>Admit\<close>, the steps between the snapshot \<open>cpPod\<close> and the call of
  \<open>generateJsonPatch\<close>: the affinity merge when the pod has the label
  \<open>tekton.dev/pipelineRun\<close>, then the label \<open>QuanTest\<close>, whose map is made when it is \<open>nil\<close>.
\<close>

definition mutatePod :: "('doc, 'op, 'bytes) deps \<Rightarrow> Pod \<Rightarrow> Pod" where
  "mutatePod L pod =
     (let pod1 = (case index (Labels pod) ''tekton.dev/pipelineRun'' of
                    Some pr \<Rightarrow> mutatePodAffinity L pod pr
                  | None \<Rightarrow> pod);
          labels = (case Labels pod1 of None \<Rightarrow> Map.empty | Some m \<Rightarrow> m)
      in pod1\<lparr>Labels := Some (labels(''QuanTest'' \<mapsto> ''hello1''))\<rparr>)"

text \<open>
  \<open>Admit\<close>. The three results of \<open>Decode\<close> are dropped (line 221): only the pod it was
  asked to fill is read afterwards. \<open>withContext\<close> and the logger do not reach the
  response.
\<close>

definition Admit ::
  "('doc, 'op, 'bytes) deps \<Rightarrow> AdmissionRequest \<Rightarrow> 'bytes AdmissionResponse" where
  "Admit L request =
     (let pod = fst (Decode L (Raw request) zeroPod);
          cpPod = pod;
          jp = generateJsonPatch L cpPod (mutatePod L pod)
      in \<lparr>Patch = jp, Allowed = True, PatchType = Some ''JSONPatch'', Result = None\<rparr>)"

subsection \<open>Notions used in the statements\<close>

text \<open>The required co-location rules a pod carries (none when a pointer on the way is \<open>nil\<close>).\<close>

definition requiredRules :: "Pod \<Rightarrow> PodAffinityTerm list" where
  "requiredRules p =
     (case Affinity (Spec p) of
        None \<Rightarrow> []
      | Some a \<Rightarrow> (case PodAffinity a of
                    None \<Rightarrow> []
                  | Some pa \<Rightarrow> RequiredDuringSchedulingIgnoredDuringExecution pa))"

text \<open>
  Reading a hexadecimal string back, written apart from \<open>sprintf_x\<close>: the value of a
  lower-case hexadecimal digit, and the bytes of a string of such digits, two for a byte,
  the high one first. Any other character, or an odd length, gives \<open>None\<close>.
\<close>

definition hexVal :: "char \<Rightarrow> nat option" where
  "hexVal c =
     map_of [(CHR ''0'', 0), (CHR ''1'', 1), (CHR ''2'', 2), (CHR ''3'', 3),
             (CHR ''4'', 4), (CHR ''5'', 5), (CHR ''6'', 6), (CHR ''7'', 7),
             (CHR ''8'', 8), (CHR ''9'', 9), (CHR ''a'', 10), (CHR ''b'', 11),
             (CHR ''c'', 12), (CHR ''d'', 13), (CHR ''e'', 14), (CHR ''f'', 15)] c"

fun unhex :: "string \<Rightarrow> 8 word list option" where
  "unhex [] = Some []"
| "unhex [c] = None"
| "unhex (c1 # c2 # cs) =
     (case (hexVal c1, hexVal c2, unhex cs) of
        (Some h, Some l, Some bs) \<Rightarrow> Some (of_nat (16 * h + l) # bs)
      | _ \<Rightarrow> None)"

text \<open>
  What the statements about a non-empty patch ask of the dependencies: the encoding of a
  pod shows its labels, \<open>CreatePatch\<close> gives no operation only for two equal
  encodings, and only the empty patch is marshalled as the empty patch is.
\<close>

definition faithful :: "('doc, 'op, 'bytes) deps \<Rightarrow> bool" where
  "faithful L \<longleftrightarrow>
     (\<forall>p q. fst (Encode L p) = fst (Encode L q) \<longrightarrow> index (Labels p) = index (Labels q)) \<and>
     (\<forall>p q. fst (CreatePatch L (fst (Encode L p)) (fst (Encode L q))) = []
        \<longrightarrow> fst (Encode L p) = fst (Encode L q)) \<and>
     (\<forall>ops. fst (Marshal L ops) = fst (Marshal L []) \<longrightarrow> ops = [])"



subsection \<open>Sample dependencies and sample pods\<close>

text \<open>
  Test doubles for the dependencies, for evaluating the functions above on concrete
  requests: a decoder that knows a table of payloads and fails on any other, the identity
  as encoder and marshaller, a differ that gives the pair (origin, target) as its one
  operation when the two differ, and a digest table holding the SHA-256 digest of
  \<open>wf-1\<close>. The two constants are the ones of \<open>tektoncd/pipeline/pkg/workspace\<close>.
\<close>

definition wf1Digest :: "8 word list" where
  "wf1Digest =
     [0xB3, 0xDC, 0xB3, 0x86, 0x3C, 0x91, 0xBE, 0x2A, 0x46, 0x7C, 0x47, 0x79, 0xF4, 0xA3, 0x44, 0x82,
      0x49, 0x3C, 0x16, 0x6C, 0x4F, 0xAD, 0x85, 0xF7, 0x9E, 0xD1, 0x9E, 0x51, 0xE3, 0x1E, 0xE3, 0x4C]"

definition testSum256 :: "string \<Rightarrow> digest" where
  "testSum256 s = Abs_digest (if s = ''wf-1'' then wf1Digest else replicate 32 0)"

definition testDeps :: "(string \<times> Pod) list \<Rightarrow> (Pod, Pod \<times> Pod, (Pod \<times> Pod) list) deps" where
  "testDeps payloads =
     \<lparr>Decode = (\<lambda>raw into. case map_of payloads raw of
                               Some p \<Rightarrow> (p, None)
                             | None \<Rightarrow> (into, Some ''no kind registered'')),
      Encode = (\<lambda>p. (p, None)),
      CreatePatch = (\<lambda>a b. if a = b then ([], None) else ([(a, b)], None)),
      Marshal = (\<lambda>ops. (ops, None)),
      Sum256 = testSum256,
      LabelInstance = ''app.kubernetes.io/instance'',
      AnnotationAffinityAssistantName = ''pipeline.tekton.dev/affinity-assistant''\<rparr>"


definition markerPod :: Pod where
  "markerPod =
     \<lparr>Labels = Some [''tekton.dev/pipelineRun'' \<mapsto> ''wf-1''],
      Annotations = Some [''pipeline.tekton.dev/affinity-assistant'' \<mapsto> ''affinity-assistant-0a1b''],
      Spec = \<lparr>Affinity = None\<rparr>\<rparr>"

definition workflowPod :: Pod where
  "workflowPod =
     \<lparr>Labels = Some [''tekton.dev/pipelineRun'' \<mapsto> ''wf-1''],
      Annotations = None,
      Spec = \<lparr>Affinity = None\<rparr>\<rparr>"

definition zoneTerm :: PodAffinityTerm where
  "zoneTerm =
     \<lparr>LabelSelector = Some \<lparr>MatchLabels = Some [''app'' \<mapsto> ''db''], MatchExpressions = None\<rparr>,
      Namespaces = [],
      TopologyKey = ''topology.kubernetes.io/zone'',
      NamespaceSelector = None\<rparr>"

definition pinnedPod :: Pod where
  "pinnedPod =
     \<lparr>Labels = Some [''tekton.dev/pipelineRun'' \<mapsto> ''wf-1''],
      Annotations = None,
      Spec = \<lparr>Affinity = Some \<lparr>NodeAffinity = None,
                               PodAffinity = Some \<lparr>RequiredDuringSchedulingIgnoredDuringExecution = [zoneTerm],
                                                   PreferredDuringSchedulingIgnoredDuringExecution = []\<rparr>,
                               PodAntiAffinity = None\<rparr>\<rparr>\<rparr>"

definition payloads :: "(string \<times> Pod) list" where
  "payloads = [(''marker-pod'', markerPod), (''workflow-pod'', workflowPod), (''pinned-pod'', pinnedPod)]"

section \<open>The reconcile path\<close>

subsection \<open>The registration (MutatingWebhookConfiguration) and what is read beside it\<close>

text \<open>
  \<open>kmp.SafeEqual\<close> tells a \<open>nil\<close> slice from an empty one. The CA bundle and the values
  of a secret are byte slices that may be \<open>nil\<close>: optional strings. The other slices of a
  registration are lists: \<open>reconcileMutatingWebhook\<close> either copies them as they are
  (\<open>DeepCopy\<close> keeps \<open>nil\<close> and empty apart) or sets them to a constant that is not empty
  (the rules, the owner reference), so the document it builds never has an empty slice
  where the observed one has \<open>nil\<close>, or the other way round, in these.
\<close>

record OwnerReference =
  APIVersion :: string
  Kind :: string
  Name :: string
  UID :: string
  Controller :: "bool option"
  BlockOwnerDeletion :: "bool option"

record Namespace =
  Name :: string
  UID :: string

record Secret =
  Data :: "(string \<rightharpoonup> string option) option"

record ServiceReference =
  Namespace :: string
  Name :: string
  Path :: "string option"

record WebhookClientConfig =
  URL :: "string option"
  Service :: "ServiceReference option"
  CABundle :: "string option"

record Rule =
  APIGroups :: "string list"
  APIVersions :: "string list"
  Resources :: "string list"
  Scope :: "string option"

record RuleWithOperations =
  Operations :: "string list"
  Rule :: Rule

record MutatingWebhook =
  Name :: string
  ClientConfig :: WebhookClientConfig
  Rules :: "RuleWithOperations list"
  NamespaceSelector :: "LabelSelector option"
  ReinvocationPolicy :: "string option"

record MutatingWebhookConfiguration =
  Name :: string
  OwnerReferences :: "OwnerReference list"
  Webhooks :: "MutatingWebhook list"

subsection \<open>Errors, the cluster and the dependencies of the reconcile path\<close>

text \<open>
  What \<open>Reconcile\<close> returns when it does not return \<open>nil\<close>: the skip signal of
  \<open>controller.NewSkipKey\<close>, the error of the secret lister as it is, and the five
  errors made with \<open>fmt.Errorf\<close>, in the order of the source.
\<close>

datatype error =
    SkipKey string
  | SecretError string
  | MissingKey string string
  | RetrievingWebhook string
  | FetchNamespace string
  | MissingServiceReference string
  | DiffingWebhooks string
  | UpdateWebhook string

text \<open>The calls to the stores, in the order they are issued.\<close>

datatype call =
    SecretGet string
  | WebhookGet string
  | NamespaceGet
  | WebhookUpdate MutatingWebhookConfiguration

text \<open>
  The cluster as the reconciler sees it: whether this replica leads for a key, what the
  secret lister answers for a name, what the registration lister answers for the name
  of the reconciler's key, what the namespace client answers for the system namespace,
  and the error with which the registration store refuses an update (\<open>None\<close>: it accepts
  it). The lister answers from the informer's cache and \<open>Update\<close> goes to the API
  server through the client: nothing in \<open>Reconcile\<close> changes what the lister answers,
  and the cache follows the server later, outside this code. \<open>calls\<close> records every
  call issued, oldest first.
\<close>

record cluster =
  leader :: "string \<Rightarrow> bool"
  secrets :: "string \<Rightarrow> string + Secret"
  registration :: "string + MutatingWebhookConfiguration"
  systemNamespace :: "string + Namespace"
  updateError :: "string option"
  calls :: "call list"

record reconciler =
  key :: string
  path :: string
  secretName :: string

text \<open>
  Functions and constants of other modules: \<open>webhook.EnsureLabelSelectorExpressions\<close>,
  \<open>metav1.NewControllerRef\<close> (for the kind \<open>Namespace\<close>), \<open>kmp.SafeEqual\<close> (the
  answer and the error) and \<open>certresources.CACert\<close>.
\<close>

record kdeps =
  EnsureLabelSelectorExpressions :: "LabelSelector option \<Rightarrow> LabelSelector option \<Rightarrow> LabelSelector option"
  NewControllerRef :: "Namespace \<Rightarrow> OwnerReference"
  SafeEqual :: "MutatingWebhookConfiguration \<Rightarrow> MutatingWebhookConfiguration \<Rightarrow> bool \<times> string option"
  CACert :: string

subsection \<open>reconcileMutatingWebhook and Reconcile\<close>

definition rules :: "RuleWithOperations list" where
  "rules = [\<lparr>Operations = [''CREATE''],
            Rule = \<lparr>APIGroups = [''''], APIVersions = [''v1''], Resources = [''pods''], Scope = None\<rparr>\<rparr>]"

text \<open>The selector passed to \<open>EnsureLabelSelectorExpressions\<close> (lines 178 to 183).\<close>

definition excludeSelector :: "LabelSelector option" where
  "excludeSelector =
     Some \<lparr>MatchLabels = None,
           MatchExpressions = Some [\<lparr>Key = ''webhooks.knative.dev/exclude'', Operator = ''DoesNotExist'',
                                     Values = None\<rparr>]\<rparr>"

text \<open>
  The loop of lines 168 to 192 over \<open>current.Webhooks\<close>: an entry of another name is
  kept; an entry of the registration's name gets the rules, the selector, the CA bundle,
  and then, unless its service reference is \<open>nil\<close> (the function returns the error
  there), the path and the reinvocation policy.
\<close>

fun reconcileWebhooks ::
  "kdeps \<Rightarrow> reconciler \<Rightarrow> string option \<Rightarrow> string \<Rightarrow> MutatingWebhook list
     \<Rightarrow> error + MutatingWebhook list" where
  "reconcileWebhooks K ac caCert currentName [] = Inr []"
| "reconcileWebhooks K ac caCert currentName (wh # whs) =
     (if MutatingWebhook.Name wh \<noteq> currentName then
        (case reconcileWebhooks K ac caCert currentName whs of
           Inl e \<Rightarrow> Inl e
         | Inr whs' \<Rightarrow> Inr (wh # whs'))
      else
        let cur = wh\<lparr>Rules := rules,
                     NamespaceSelector :=
                       EnsureLabelSelectorExpressions K (NamespaceSelector wh) excludeSelector,
                     ClientConfig := (ClientConfig wh)\<lparr>CABundle := caCert\<rparr>\<rparr>
        in case Service (ClientConfig cur) of
             None \<Rightarrow> Inl (MissingServiceReference (MutatingWebhook.Name wh))
           | Some svc \<Rightarrow>
               let cur' = cur\<lparr>ClientConfig := (ClientConfig cur)\<lparr>Service := Some (svc\<lparr>Path := Some (path ac)\<rparr>)\<rparr>,
                               ReinvocationPolicy := Some ''IfNeeded''\<rparr>
               in (case reconcileWebhooks K ac caCert currentName whs of
                     Inl e \<Rightarrow> Inl e
                   | Inr whs' \<Rightarrow> Inr (cur' # whs')))"

text \<open>
  Lines 159 to 192: the desired registration, from the observed one, the namespace and
  the CA certificate.
\<close>

definition desiredWebhook ::
  "kdeps \<Rightarrow> reconciler \<Rightarrow> string option \<Rightarrow> Namespace \<Rightarrow> MutatingWebhookConfiguration
     \<Rightarrow> error + MutatingWebhookConfiguration" where
  "desiredWebhook K ac caCert ns configuredWebhook =
     (let current = configuredWebhook\<lparr>OwnerReferences := [NewControllerRef K ns]\<rparr>
      in case reconcileWebhooks K ac caCert (MutatingWebhookConfiguration.Name current) (Webhooks current) of
           Inl e \<Rightarrow> Inl e
         | Inr whs \<Rightarrow> Inr (current\<lparr>Webhooks := whs\<rparr>))"

definition issue :: "call \<Rightarrow> cluster \<Rightarrow> cluster" where
  "issue c w = w\<lparr>calls := calls w @ [c]\<rparr>"

definition reconcileMutatingWebhook ::
  "kdeps \<Rightarrow> reconciler \<Rightarrow> string option \<Rightarrow> cluster \<Rightarrow> error option \<times> cluster" where
  "reconcileMutatingWebhook K ac caCert w =
     (let w1 = issue (WebhookGet (key ac)) w in
      case registration w of
        Inl err \<Rightarrow> (Some (RetrievingWebhook err), w1)
      | Inr configuredWebhook \<Rightarrow>
          (let w2 = issue NamespaceGet w1 in
           case systemNamespace w of
             Inl err \<Rightarrow> (Some (FetchNamespace err), w2)
           | Inr ns \<Rightarrow>
               (case desiredWebhook K ac caCert ns configuredWebhook of
                  Inl e \<Rightarrow> (Some e, w2)
                | Inr current \<Rightarrow>
                    (case SafeEqual K configuredWebhook current of
                       (ok, Some err) \<Rightarrow> (Some (DiffingWebhooks err), w2)
                     | (ok, None) \<Rightarrow>
                         if \<not> ok then
                           (let w3 = issue (WebhookUpdate current) w2 in
                            case updateError w of
                              Some err \<Rightarrow> (Some (UpdateWebhook err), w3)
                            | None \<Rightarrow> (None, w3))
                         else (None, w2)))))"

definition Reconcile :: "kdeps \<Rightarrow> reconciler \<Rightarrow> string \<Rightarrow> cluster \<Rightarrow> error option \<times> cluster" where
  "Reconcile K ac k w =
     (if \<not> leader w (key ac) then (Some (SkipKey k), w)
      else
        let w1 = issue (SecretGet (secretName ac)) w in
        case secrets w (secretName ac) of
          Inl err \<Rightarrow> (Some (SecretError err), w1)
        | Inr secret \<Rightarrow>
            (case index (Data secret) (CACert K) of
               None \<Rightarrow> (Some (MissingKey (secretName ac) (CACert K)), w1)
             | Some caCert \<Rightarrow> reconcileMutatingWebhook K ac caCert w1))"

text \<open>The registrations written by the calls of a log.\<close>

fun updates :: "call list \<Rightarrow> MutatingWebhookConfiguration list" where
  "updates [] = []"
| "updates (WebhookUpdate c # cs) = c # updates cs"
| "updates (_ # cs) = updates cs"

text \<open>The calls issued between a state of the cluster and a later one.\<close>

definition issued :: "cluster \<Rightarrow> cluster \<Rightarrow> call list" where
  "issued w w' = drop (length (calls w)) (calls w')"

subsection \<open>Notions used in the statements about Reconcile\<close>

text \<open>
  What idempotence asks of the dependencies: merging the exclusion selector into a
  selector that already went through the merge changes nothing, and \<open>kmp.SafeEqual\<close>
  finds a registration equal to itself.
\<close>

definition ensureIdempotent :: "kdeps \<Rightarrow> bool" where
  "ensureIdempotent K \<longleftrightarrow>
     (\<forall>s. EnsureLabelSelectorExpressions K (EnsureLabelSelectorExpressions K s excludeSelector) excludeSelector
            = EnsureLabelSelectorExpressions K s excludeSelector)"

definition safeEqualReflexive :: "kdeps \<Rightarrow> bool" where
  "safeEqualReflexive K \<longleftrightarrow> (\<forall>c. SafeEqual K c c = (True, None))"

subsection \<open>Sample dependencies, reconciler and cluster\<close>

text \<open>
  Test doubles for evaluating \<open>Reconcile\<close>: a merge that appends the wanted expressions
  the selector does not hold yet, structural equality for \<open>kmp.SafeEqual\<close>, a
  registration with one webhook of its own name and a stale CA bundle, and a cluster
  whose secret holds a fresh CA certificate, whose lister answers with the registration
  given and whose store accepts updates.
\<close>

definition testEnsure :: "LabelSelector option \<Rightarrow> LabelSelector option \<Rightarrow> LabelSelector option" where
  "testEnsure current want =
     (case current of
        None \<Rightarrow> want
      | Some c \<Rightarrow>
          (let held = (case MatchExpressions c of None \<Rightarrow> [] | Some es \<Rightarrow> es);
               wanted = (case want of
                           None \<Rightarrow> []
                         | Some s \<Rightarrow> (case MatchExpressions s of None \<Rightarrow> [] | Some es \<Rightarrow> es));
               missing = filter (\<lambda>e. e \<notin> set held) wanted
           in if missing = [] then Some c
              else Some (c\<lparr>MatchExpressions := Some (held @ missing)\<rparr>)))"

definition testK :: kdeps where
  "testK =
     \<lparr>EnsureLabelSelectorExpressions = testEnsure,
      NewControllerRef = (\<lambda>ns. \<lparr>APIVersion = ''v1'', Kind = ''Namespace'',
                                 OwnerReference.Name = Namespace.Name ns,
                                 OwnerReference.UID = Namespace.UID ns,
                                 Controller = Some True, BlockOwnerDeletion = Some True\<rparr>),
      SafeEqual = (\<lambda>a b. (a = b, None)),
      CACert = ''ca-cert.pem''\<rparr>"

definition testReconciler :: reconciler where
  "testReconciler = \<lparr>key = ''pod-affinity.webhook'', path = ''/mutate'', secretName = ''webhook-certs''\<rparr>"

definition testWebhook :: "ServiceReference option \<Rightarrow> MutatingWebhook" where
  "testWebhook svc =
     \<lparr>MutatingWebhook.Name = ''pod-affinity.webhook'',
      ClientConfig = \<lparr>URL = None, Service = svc, CABundle = Some ''stale-ca''\<rparr>,
      Rules = [],
      NamespaceSelector = None,
      ReinvocationPolicy = None\<rparr>"

definition testRegistration :: "ServiceReference option \<Rightarrow> MutatingWebhookConfiguration" where
  "testRegistration svc =
     \<lparr>MutatingWebhookConfiguration.Name = ''pod-affinity.webhook'', OwnerReferences = [], Webhooks = [testWebhook svc]\<rparr>"

definition testService :: ServiceReference where
  "testService = \<lparr>Namespace = ''tekton-pipelines'', ServiceReference.Name = ''webhook'', Path = None\<rparr>"

definition testCluster :: "bool \<Rightarrow> MutatingWebhookConfiguration \<Rightarrow> cluster" where
  "testCluster lead reg =
     \<lparr>leader = (\<lambda>k. lead),
      secrets = (\<lambda>n. if n = ''webhook-certs'' then Inr \<lparr>Data = Some [''ca-cert.pem'' \<mapsto> Some ''fresh-ca'']\<rparr>
                      else Inl ''not found''),
      registration = Inr reg,
      systemNamespace = Inr \<lparr>Namespace.Name = ''tekton-pipelines'', Namespace.UID = ''0f3c''\<rparr>,
      updateError = None,
      calls = []\<rparr>"

text \<open>What the sample registration becomes: the desired registration of the sample cluster.\<close>

definition freshRegistration :: MutatingWebhookConfiguration where
  "freshRegistration =
     \<lparr>MutatingWebhookConfiguration.Name = ''pod-affinity.webhook'',
      OwnerReferences = [\<lparr>APIVersion = ''v1'', Kind = ''Namespace'',
                          OwnerReference.Name = ''tekton-pipelines'', OwnerReference.UID = ''0f3c'',
                          Controller = Some True, BlockOwnerDeletion = Some True\<rparr>],
      Webhooks = [\<lparr>MutatingWebhook.Name = ''pod-affinity.webhook'',
                   ClientConfig = \<lparr>URL = None,
                                   Service = Some \<lparr>Namespace = ''tekton-pipelines'',
                                                   ServiceReference.Name = ''webhook'',
                                                   Path = Some ''/mutate''\<rparr>,
                                   CABundle = Some ''fresh-ca''\<rparr>,
                   Rules = rules,
                   NamespaceSelector = excludeSelector,
                   ReinvocationPolicy = Some ''IfNeeded''\<rparr>]\<rparr>"

text \<open>
  The desired registration with another CA bundle, and a cluster whose lister answers with
  a \<open>nil\<close> bundle while the secret holds an empty certificate.
\<close>

definition bundleRegistration :: "string option \<Rightarrow> MutatingWebhookConfiguration" where
  "bundleRegistration bundle =
     freshRegistration\<lparr>Webhooks :=
       map (\<lambda>wh. wh\<lparr>ClientConfig := (ClientConfig wh)\<lparr>CABundle := bundle\<rparr>\<rparr>) (Webhooks freshRegistration)\<rparr>"

definition emptyCertCluster :: cluster where
  "emptyCertCluster =
     (testCluster True (bundleRegistration None))
       \<lparr>secrets := (\<lambda>n. Inr \<lparr>Data = Some [''ca-cert.pem'' \<mapsto> Some '''']\<rparr>)\<rparr>"

section \<open>Properties of the admission path\<close>

lemma length_sprintf_x: "length (sprintf_x bs) = 2 * length bs"
  by (induction bs) (simp_all add: sprintf_x_def)

lemma length_sprintf_x_digest: "length (sprintf_x (Rep_digest d)) = 64"
  using Rep_digest [of d] by (simp add: length_sprintf_x)

lemma hexDigit_in: "n < 16 \<Longrightarrow> hexDigit n \<in> set ''0123456789abcdef''"
  unfolding hexDigit_def by (rule nth_mem) simp

lemma set_sprintf_x: "set (sprintf_x bs) \<subseteq> set ''0123456789abcdef''"
proof (induction bs)
  case Nil
  show ?case by (simp add: sprintf_x_def)
next
  case (Cons b bs)
  have d: "unat b div 16 < 16"
    using unsigned_less [of b, where ?'a = nat] by (simp add: less_mult_imp_div_less)
  have m: "unat b mod 16 < 16" by simp
  from Cons hexDigit_in [OF d] hexDigit_in [OF m] show ?case
    by (simp add: sprintf_x_def)
qed

lemma take_sprintf_x: "take (2 * n) (sprintf_x bs) = sprintf_x (take n bs)"
proof (induction bs arbitrary: n)
  case Nil
  show ?case by (simp add: sprintf_x_def)
next
  case (Cons b bs)
  show ?case
  proof (cases n)
    case 0
    then show ?thesis by (simp add: sprintf_x_def)
  next
    case (Suc k)
    with Cons [of k] show ?thesis by (simp add: sprintf_x_def)
  qed
qed

lemma hexVal_hexDigit_all: "list_all (\<lambda>n. hexVal (hexDigit n) = Some n) [0..<16]"
  by (simp add: upt_rec hexVal_def hexDigit_def)

lemma hexVal_hexDigit: "n < 16 \<Longrightarrow> hexVal (hexDigit n) = Some n"
  using hexVal_hexDigit_all by (simp add: list_all_iff)

lemma unhex_sprintf_x: "unhex (sprintf_x bs) = Some bs"
proof (induction bs)
  case Nil
  show ?case by (simp add: sprintf_x_def)
next
  case (Cons b bs)
  have d: "unat b div 16 < 16"
    using unsigned_less [of b, where ?'a = nat] by (simp add: less_mult_imp_div_less)
  have m: "unat b mod 16 < 16" by simp
  have v: "(of_nat (16 * (unat b div 16) + unat b mod 16) :: 8 word) = b"
    by simp
  from Cons have "unhex (concat (map (\<lambda>b. [hexDigit (unat b div 16), hexDigit (unat b mod 16)]) bs)) = Some bs"
    by (simp add: sprintf_x_def)
  then show ?case
    by (simp add: sprintf_x_def hexVal_hexDigit [OF d] hexVal_hexDigit [OF m] v del: of_nat_add of_nat_mult)
qed

text \<open>
  Claim C5. For every workflow identifier \<open>w\<close>, the derived token is the constant
  \<open>custom-pod-affinity-\<close> followed by the first 10 characters of the hexadecimal
  encoding of the hash of the bytes of \<open>w\<close>: 10 lower-case hexadecimal digits which,
  read back as hexadecimal, are the first 5 bytes of the digest; the token has 30
  characters. The token is a function of \<open>w\<close> and the hash: two identifiers have the same
  token exactly when the first 5 bytes of their digests agree, so the same identifier
  always has the same token.
\<close>

theorem getPodAffinityValue_prefix_hex:
  "getPodAffinityValue sum256 w
     = ''custom-pod-affinity-'' @ take 10 (sprintf_x (Rep_digest (sum256 w)))
   \<and> length (take 10 (sprintf_x (Rep_digest (sum256 w)))) = 10
   \<and> unhex (take 10 (sprintf_x (Rep_digest (sum256 w)))) = Some (take 5 (Rep_digest (sum256 w)))
   \<and> set (take 10 (sprintf_x (Rep_digest (sum256 w)))) \<subseteq> set ''0123456789abcdef''
   \<and> length (getPodAffinityValue sum256 w) = 30
   \<and> (getPodAffinityValue sum256 w = getPodAffinityValue sum256 w'
        \<longleftrightarrow> take 5 (Rep_digest (sum256 w)) = take 5 (Rep_digest (sum256 w')))"
proof -
  let ?h = "\<lambda>w. take 10 (sprintf_x (Rep_digest (sum256 w)))"
  have l: "length (?h w) = 10" by (simp add: length_sprintf_x_digest)
  have t: "?h v = sprintf_x (take 5 (Rep_digest (sum256 v)))" for v
    using take_sprintf_x [of 5 "Rep_digest (sum256 v)"] by simp
  have u: "unhex (?h v) = Some (take 5 (Rep_digest (sum256 v)))" for v
    unfolding t by (rule unhex_sprintf_x)
  have s: "set (?h w) \<subseteq> set ''0123456789abcdef''"
    using set_take_subset [of 10 "sprintf_x (Rep_digest (sum256 w))"]
      set_sprintf_x [of "Rep_digest (sum256 w)"] by blast
  have g: "getPodAffinityValue sum256 v = ''custom-pod-affinity-'' @ ?h v" for v
    by (simp add: getPodAffinityValue_def)
  have n: "length (getPodAffinityValue sum256 w) = 30"
    unfolding g using l by simp
  have c: "getPodAffinityValue sum256 w = getPodAffinityValue sum256 w'
        \<longleftrightarrow> take 5 (Rep_digest (sum256 w)) = take 5 (Rep_digest (sum256 w'))"
  proof
    assume "getPodAffinityValue sum256 w = getPodAffinityValue sum256 w'"
    then have "?h w = ?h w'" unfolding g by simp
    then have "unhex (?h w) = unhex (?h w')" by simp
    then show "take 5 (Rep_digest (sum256 w)) = take 5 (Rep_digest (sum256 w'))"
      unfolding u by simp
  next
    assume "take 5 (Rep_digest (sum256 w)) = take 5 (Rep_digest (sum256 w'))"
    then have "?h w = ?h w'" unfolding t by simp
    then show "getPodAffinityValue sum256 w = getPodAffinityValue sum256 w'"
      unfolding g by simp
  qed
  from g [of w] l u [of w] s n c show ?thesis by blast
qed

lemma mutatePodAffinity_Labels: "Labels (mutatePodAffinity L p w) = Labels p"
  by (simp add: mutatePodAffinity_def Let_def)

lemma mutatePodAffinity_Annotations: "Annotations (mutatePodAffinity L p w) = Annotations p"
  by (simp add: mutatePodAffinity_def Let_def)

lemma mutatePod_Labels:
  "Labels (mutatePod L p)
     = Some ((case Labels p of None \<Rightarrow> Map.empty | Some m \<Rightarrow> m)(''QuanTest'' \<mapsto> ''hello1''))"
  by (simp add: mutatePod_def Let_def mutatePodAffinity_Labels split: option.splits)

lemma mutatePod_QuanTest: "index (Labels (mutatePod L p)) ''QuanTest'' = Some ''hello1''"
  by (simp add: mutatePod_Labels index_def)

lemma Admit_Patch:
  "Patch (Admit L request)
     = generateJsonPatch L (fst (Decode L (Raw request) zeroPod))
         (mutatePod L (fst (Decode L (Raw request) zeroPod)))"
  by (simp add: Admit_def Let_def)

lemma generateJsonPatch_empty:
  assumes f: "faithful L" and e: "generateJsonPatch L p q = fst (Marshal L [])"
  shows "index (Labels p) = index (Labels q)"
proof -
  have "fst (Marshal L (fst (CreatePatch L (fst (Encode L p)) (fst (Encode L q)))))
          = fst (Marshal L [])"
    using e by (simp add: generateJsonPatch_def Let_def split_beta)
  with f have "fst (CreatePatch L (fst (Encode L p)) (fst (Encode L q))) = []"
    unfolding faithful_def by blast
  with f have "fst (Encode L p) = fst (Encode L q)"
    unfolding faithful_def by blast
  with f show ?thesis unfolding faithful_def by blast
qed

text \<open>
  Claim C3. For every request, the pod handed to the patch generator as target carries
  the label \<open>QuanTest\<close> with value \<open>hello1\<close>, whatever the decoded pod carries (its
  annotations are not looked at), and the patch of the response is the patch from the
  decoded pod to that target. Hence, with dependencies that are \<open>faithful\<close>, the patch
  is not the empty patch whenever the decoded pod does not carry that exact label.
\<close>

theorem Admit_sets_QuanTest_label:
  "index (Labels (mutatePod L (fst (Decode L (Raw request) zeroPod)))) ''QuanTest'' = Some ''hello1''
   \<and> Patch (Admit L request)
       = generateJsonPatch L (fst (Decode L (Raw request) zeroPod))
           (mutatePod L (fst (Decode L (Raw request) zeroPod)))
   \<and> (faithful L \<and> index (Labels (fst (Decode L (Raw request) zeroPod))) ''QuanTest'' \<noteq> Some ''hello1''
        \<longrightarrow> Patch (Admit L request) \<noteq> fst (Marshal L []))"
proof (intro conjI impI)
  show "index (Labels (mutatePod L (fst (Decode L (Raw request) zeroPod)))) ''QuanTest'' = Some ''hello1''"
    by (rule mutatePod_QuanTest)
  show "Patch (Admit L request)
       = generateJsonPatch L (fst (Decode L (Raw request) zeroPod))
           (mutatePod L (fst (Decode L (Raw request) zeroPod)))"
    by (rule Admit_Patch)
next
  let ?p = "fst (Decode L (Raw request) zeroPod)"
  assume a: "faithful L \<and> index (Labels ?p) ''QuanTest'' \<noteq> Some ''hello1''"
  show "Patch (Admit L request) \<noteq> fst (Marshal L [])"
  proof
    assume "Patch (Admit L request) = fst (Marshal L [])"
    then have "generateJsonPatch L ?p (mutatePod L ?p) = fst (Marshal L [])"
      by (simp add: Admit_Patch)
    with a have "index (Labels ?p) = index (Labels (mutatePod L ?p))"
      by (blast intro: generateJsonPatch_empty)
    then have "index (Labels ?p) ''QuanTest'' = Some ''hello1''"
      by (simp add: mutatePod_QuanTest)
    with a show False by blast
  qed
qed

lemma testDeps_simps:
  "Decode (testDeps ps) raw into
     = (case map_of ps raw of Some p \<Rightarrow> (p, None) | None \<Rightarrow> (into, Some ''no kind registered''))"
  "Encode (testDeps ps) p = (p, None)"
  "CreatePatch (testDeps ps) a b = (if a = b then ([], None) else ([(a, b)], None))"
  "Marshal (testDeps ps) ops = (ops, None)"
  "Sum256 (testDeps ps) = testSum256"
  "LabelInstance (testDeps ps) = ''app.kubernetes.io/instance''"
  "AnnotationAffinityAssistantName (testDeps ps) = ''pipeline.tekton.dev/affinity-assistant''"
  by (simp_all add: testDeps_def)

lemma faithful_testDeps: "faithful (testDeps ps)"
  by (auto simp add: faithful_def testDeps_simps split: if_splits)

lemma generateJsonPatch_testDeps:
  "generateJsonPatch (testDeps ps) p q = (if p = q then [] else [(p, q)])"
  by (simp add: generateJsonPatch_def testDeps_simps)

text \<open>
  Claim C1 asks for a deny response when the payload does not decode. The code does
  otherwise: when \<open>Decode\<close> returns an error, \<open>Admit\<close> goes on with the pod the decoder
  left behind and returns \<open>Allowed = True\<close> with a patch and no reason.
\<close>

theorem Admit_decode_failure_allowed:
  assumes "Decode L (Raw request) zeroPod = (p, Some err)"
  shows "Admit L request
           = \<lparr>Patch = generateJsonPatch L p (mutatePod L p), Allowed = True,
              PatchType = Some ''JSONPatch'', Result = None\<rparr>"
  using assms by (simp add: Admit_def Let_def)

lemma mutatePod_zeroPod:
  "mutatePod L zeroPod = zeroPod\<lparr>Labels := Some [''QuanTest'' \<mapsto> ''hello1'']\<rparr>"
  by (simp add: mutatePod_def zeroPod_def index_def)

text \<open>
  The same at a concrete request: the payload \<open>not a pod\<close> is not in the decoder's
  table, the pod stays the zero value, and the response allows the request with the
  patch that adds the label \<open>QuanTest\<close>.
\<close>

theorem Admit_decode_failure_allowed_witness:
  "Decode (testDeps payloads) (Raw \<lparr>Raw = ''not a pod''\<rparr>) zeroPod = (zeroPod, Some ''no kind registered'')
   \<and> Admit (testDeps payloads) \<lparr>Raw = ''not a pod''\<rparr>
       = \<lparr>Patch = [(zeroPod, zeroPod\<lparr>Labels := Some [''QuanTest'' \<mapsto> ''hello1'']\<rparr>)],
          Allowed = True, PatchType = Some ''JSONPatch'', Result = None\<rparr>"
proof -
  have d: "Decode (testDeps payloads) (Raw \<lparr>Raw = ''not a pod''\<rparr>) zeroPod
             = (zeroPod, Some ''no kind registered'')"
    by (simp add: testDeps_simps payloads_def)
  have n: "zeroPod \<noteq> zeroPod\<lparr>Labels := Some [''QuanTest'' \<mapsto> ''hello1'']\<rparr>"
    by (simp add: zeroPod_def)
  from Admit_decode_failure_allowed [OF d] n d show ?thesis
    by (simp add: mutatePod_zeroPod generateJsonPatch_testDeps)
qed

text \<open>
  Claim C2, as amended. For every request whose decoded pod carries the
  affinity-assistant marker annotation, the affinity merge is skipped whatever the
  owning-workflow label is, the decision is allow, and the only change to the pod is the
  label \<open>QuanTest\<close> = \<open>hello1\<close>: the patch of the response is the patch from the pod to
  the pod with that label, and the pod is unchanged when it already carries that label.
\<close>

theorem Admit_marker_skips_affinity_merge:
  assumes "fst (Decode L (Raw request) zeroPod) = p"
      and "index (Annotations p) (AnnotationAffinityAssistantName L) \<noteq> None"
  shows "mutatePodAffinity L p w = p
     \<and> mutatePod L p
         = p\<lparr>Labels := Some ((case Labels p of None \<Rightarrow> Map.empty | Some m \<Rightarrow> m)
                               (''QuanTest'' \<mapsto> ''hello1''))\<rparr>
     \<and> Patch (Admit L request)
         = generateJsonPatch L p
             (p\<lparr>Labels := Some ((case Labels p of None \<Rightarrow> Map.empty | Some m \<Rightarrow> m)
                                  (''QuanTest'' \<mapsto> ''hello1''))\<rparr>)
     \<and> Allowed (Admit L request)
     \<and> (index (Labels p) ''QuanTest'' = Some ''hello1'' \<longrightarrow> mutatePod L p = p)"
proof -
  have a: "mutatePodAffinity L p w = p" for w
    using assms(2) by (simp add: mutatePodAffinity_def)
  have b: "mutatePod L p
         = p\<lparr>Labels := Some ((case Labels p of None \<Rightarrow> Map.empty | Some m \<Rightarrow> m)
                               (''QuanTest'' \<mapsto> ''hello1''))\<rparr>"
    by (simp add: mutatePod_def Let_def a split: option.splits)
  have c: "Patch (Admit L request) = generateJsonPatch L p (mutatePod L p)"
    using assms(1) by (simp add: Admit_Patch)
  have d: "Allowed (Admit L request)"
    by (simp add: Admit_def Let_def)
  have e: "mutatePod L p = p" if "index (Labels p) ''QuanTest'' = Some ''hello1''"
  proof -
    from that obtain m where m: "Labels p = Some m" "m ''QuanTest'' = Some ''hello1''"
      by (auto simp add: index_def split: option.splits)
    then have "m(''QuanTest'' \<mapsto> ''hello1'') = m" by (simp add: map_upd_triv)
    with m b show ?thesis by simp
  qed
  from a b c d e show ?thesis by simp
qed

text \<open>
  At the sample pod with the marker annotation: no scheduling constraint is added and
  the request is allowed.
\<close>

theorem Admit_marker_skips_affinity_merge_witness:
  "index (Annotations markerPod) (AnnotationAffinityAssistantName (testDeps payloads)) \<noteq> None
   \<and> mutatePodAffinity (testDeps payloads) markerPod ''wf-1'' = markerPod
   \<and> Affinity (Spec (mutatePod (testDeps payloads) markerPod)) = None
   \<and> Allowed (Admit (testDeps payloads) \<lparr>Raw = ''marker-pod''\<rparr>)"
proof -
  have d: "fst (Decode (testDeps payloads) (Raw \<lparr>Raw = ''marker-pod''\<rparr>) zeroPod) = markerPod"
    by (simp add: testDeps_simps payloads_def)
  have m: "index (Annotations markerPod) (AnnotationAffinityAssistantName (testDeps payloads)) \<noteq> None"
    by (simp add: testDeps_simps markerPod_def index_def)
  from Admit_marker_skips_affinity_merge [OF d m, of "''wf-1''"] m show ?thesis
    by (simp add: markerPod_def)
qed

text \<open>
  Claim C2 as stated fails: the sample pod carries the marker annotation, yet the target
  differs from the decoded pod (by the label \<open>QuanTest\<close>) and the patch of the response
  is not empty.
\<close>

theorem Admit_marker_patch_counterexample:
  "index (Annotations markerPod) (AnnotationAffinityAssistantName (testDeps payloads)) \<noteq> None
   \<and> fst (Decode (testDeps payloads) (Raw \<lparr>Raw = ''marker-pod''\<rparr>) zeroPod) = markerPod
   \<and> mutatePod (testDeps payloads) markerPod \<noteq> markerPod
   \<and> Patch (Admit (testDeps payloads) \<lparr>Raw = ''marker-pod''\<rparr>) \<noteq> []
   \<and> Patch (Admit (testDeps payloads) \<lparr>Raw = ''marker-pod''\<rparr>)
       = [(markerPod, markerPod\<lparr>Labels := Some [''tekton.dev/pipelineRun'' \<mapsto> ''wf-1'',
                                                  ''QuanTest'' \<mapsto> ''hello1'']\<rparr>)]"
proof -
  have d: "fst (Decode (testDeps payloads) (Raw \<lparr>Raw = ''marker-pod''\<rparr>) zeroPod) = markerPod"
    by (simp add: testDeps_simps payloads_def)
  have m: "index (Annotations markerPod) (AnnotationAffinityAssistantName (testDeps payloads)) \<noteq> None"
    by (simp add: testDeps_simps markerPod_def index_def)
  have t: "mutatePod (testDeps payloads) markerPod
             = markerPod\<lparr>Labels := Some [''tekton.dev/pipelineRun'' \<mapsto> ''wf-1'',
                                         ''QuanTest'' \<mapsto> ''hello1'']\<rparr>"
    by (simp add: mutatePod_def mutatePodAffinity_def Let_def testDeps_simps markerPod_def index_def)
  have n: "markerPod\<lparr>Labels := Some [''tekton.dev/pipelineRun'' \<mapsto> ''wf-1'',
                                         ''QuanTest'' \<mapsto> ''hello1'']\<rparr> \<noteq> markerPod"
  proof
    assume "markerPod\<lparr>Labels := Some [''tekton.dev/pipelineRun'' \<mapsto> ''wf-1'',
                                         ''QuanTest'' \<mapsto> ''hello1'']\<rparr> = markerPod"
    then have "index (Labels (markerPod\<lparr>Labels := Some [''tekton.dev/pipelineRun'' \<mapsto> ''wf-1'',
                                         ''QuanTest'' \<mapsto> ''hello1'']\<rparr>)) ''QuanTest''
                 = index (Labels markerPod) ''QuanTest''"
      by simp
    then show False by (simp add: index_def markerPod_def)
  qed
  have p: "Patch (Admit (testDeps payloads) \<lparr>Raw = ''marker-pod''\<rparr>)
             = generateJsonPatch (testDeps payloads) markerPod (mutatePod (testDeps payloads) markerPod)"
    using d by (simp add: Admit_Patch)
  from d m t n p show ?thesis
    by (simp add: generateJsonPatch_testDeps)
qed

lemma testSum256_rep:
  "Rep_digest (testSum256 s) = (if s = ''wf-1'' then wf1Digest else replicate 32 0)"
  by (simp add: testSum256_def Abs_digest_inverse wf1Digest_def)

lemma sprintf_x_wf1: "sprintf_x (take 5 wf1Digest) = ''b3dcb3863c''"
  by (simp add: wf1Digest_def sprintf_x_def hexDigit_def)

lemma getPodAffinityValue_test:
  "getPodAffinityValue testSum256 ''wf-1'' = ''custom-pod-affinity-b3dcb3863c''"
proof -
  have "take 10 (sprintf_x (Rep_digest (testSum256 ''wf-1'')))
          = sprintf_x (take 5 (Rep_digest (testSum256 ''wf-1'')))"
    using take_sprintf_x [of 5 "Rep_digest (testSum256 ''wf-1'')"] by simp
  also have "\<dots> = ''b3dcb3863c''"
    by (simp add: testSum256_rep sprintf_x_wf1)
  finally show ?thesis by (simp add: getPodAffinityValue_def)
qed

text \<open>
  Claim C5 at the identifier \<open>wf-1\<close>, whose SHA-256 digest starts with the bytes
  b3 dc b3 86 3c.
\<close>

theorem getPodAffinityValue_prefix_hex_witness:
  "getPodAffinityValue testSum256 ''wf-1'' = ''custom-pod-affinity-b3dcb3863c''
   \<and> unhex ''b3dcb3863c'' = Some [0xB3, 0xDC, 0xB3, 0x86, 0x3C]"
proof -
  have r: "Rep_digest (testSum256 ''wf-1'') = wf1Digest"
    by (simp add: testSum256_rep)
  have h: "take 10 (sprintf_x wf1Digest) = ''b3dcb3863c''"
    using take_sprintf_x [of 5 wf1Digest] by (simp add: sprintf_x_wf1)
  have f: "take 5 wf1Digest = [0xB3, 0xDC, 0xB3, 0x86, 0x3C]"
    by (simp add: wf1Digest_def)
  from getPodAffinityValue_prefix_hex [of testSum256 "''wf-1''" "''wf-1''"]
  show ?thesis unfolding r h f by simp
qed

text \<open>
  Claim C3 at the sample pod with the marker annotation, which has no label
  \<open>QuanTest\<close>: the target has it and the patch is not the empty patch.
\<close>

theorem Admit_sets_QuanTest_label_witness:
  "index (Labels markerPod) ''QuanTest'' \<noteq> Some ''hello1''
   \<and> index (Labels (mutatePod (testDeps payloads) markerPod)) ''QuanTest'' = Some ''hello1''
   \<and> Patch (Admit (testDeps payloads) \<lparr>Raw = ''marker-pod''\<rparr>) \<noteq> fst (Marshal (testDeps payloads) [])"
proof -
  have d: "fst (Decode (testDeps payloads) (Raw \<lparr>Raw = ''marker-pod''\<rparr>) zeroPod) = markerPod"
    by (simp add: testDeps_simps payloads_def)
  have l: "index (Labels markerPod) ''QuanTest'' \<noteq> Some ''hello1''"
    by (simp add: markerPod_def index_def)
  from Admit_sets_QuanTest_label [of "testDeps payloads" "\<lparr>Raw = ''marker-pod''\<rparr>"]
    faithful_testDeps [of payloads] l
  show ?thesis unfolding d by blast
qed






lemma requiredRules_mutatePodAffinity:
  "index (Annotations p) (AnnotationAffinityAssistantName L) = None \<Longrightarrow>
   requiredRules (mutatePodAffinity L p w)
     = requiredRules p @ [podAffinityTermUsingAffinityAssistant L (getPodAffinityValue (Sum256 L) w)]"
  by (simp add: requiredRules_def mutatePodAffinity_def mergeAffinityWithAffinityAssistant_def Let_def
      split: option.splits)

lemma mutatePod_with_label:
  "index (Labels p) ''tekton.dev/pipelineRun'' = Some w \<Longrightarrow>
   mutatePod L p = (mutatePodAffinity L p w)
     \<lparr>Labels := Some ((case Labels p of None \<Rightarrow> Map.empty | Some m \<Rightarrow> m)(''QuanTest'' \<mapsto> ''hello1''))\<rparr>"
  by (simp add: mutatePod_def Let_def mutatePodAffinity_Labels)

lemma requiredRules_Labels_update: "requiredRules (p\<lparr>Labels := l\<rparr>) = requiredRules p"
  by (simp add: requiredRules_def)

text \<open>
  Claim C10. For every pod that carries the owning-workflow label and no marker
  annotation, the mutation keeps every required rule the pod already carries, in order,
  and appends the new rule after them; admitting the mutated pod again appends the same
  rule a second time.
\<close>

theorem mutatePodAffinity_appends_rule:
  assumes "index (Labels p) ''tekton.dev/pipelineRun'' = Some w"
      and "index (Annotations p) (AnnotationAffinityAssistantName L) = None"
  shows "requiredRules (mutatePodAffinity L p w)
           = requiredRules p @ [podAffinityTermUsingAffinityAssistant L (getPodAffinityValue (Sum256 L) w)]
     \<and> requiredRules (mutatePod L p)
           = requiredRules p @ [podAffinityTermUsingAffinityAssistant L (getPodAffinityValue (Sum256 L) w)]
     \<and> requiredRules (mutatePod L (mutatePod L p))
           = requiredRules p @ [podAffinityTermUsingAffinityAssistant L (getPodAffinityValue (Sum256 L) w),
                                podAffinityTermUsingAffinityAssistant L (getPodAffinityValue (Sum256 L) w)]"
proof -
  let ?t = "podAffinityTermUsingAffinityAssistant L (getPodAffinityValue (Sum256 L) w)"
  have one: "requiredRules (mutatePodAffinity L p w) = requiredRules p @ [?t]"
    using assms(2) by (rule requiredRules_mutatePodAffinity)
  have two: "requiredRules (mutatePod L p) = requiredRules p @ [?t]"
    using one by (simp add: mutatePod_with_label [OF assms(1)] requiredRules_Labels_update)
  have l': "index (Labels (mutatePod L p)) ''tekton.dev/pipelineRun'' = Some w"
    using assms(1) by (simp add: mutatePod_Labels index_def split: option.splits)
  have a': "index (Annotations (mutatePod L p)) (AnnotationAffinityAssistantName L) = None"
    using assms(2)
    by (simp add: mutatePod_with_label [OF assms(1)] mutatePodAffinity_Annotations)
  have "requiredRules (mutatePod L (mutatePod L p)) = requiredRules (mutatePod L p) @ [?t]"
    using requiredRules_mutatePodAffinity [OF a', of w]
    by (simp add: mutatePod_with_label [OF l'] requiredRules_Labels_update)
  with one two show ?thesis by simp
qed

text \<open>
  Claim C10 at the sample pod that already carries one required rule.
\<close>

theorem mutatePodAffinity_appends_rule_witness:
  "requiredRules pinnedPod = [zoneTerm]
   \<and> requiredRules (mutatePod (testDeps payloads) pinnedPod)
       = [zoneTerm, podAffinityTermUsingAffinityAssistant (testDeps payloads) ''custom-pod-affinity-b3dcb3863c'']
   \<and> requiredRules (mutatePod (testDeps payloads) (mutatePod (testDeps payloads) pinnedPod))
       = [zoneTerm, podAffinityTermUsingAffinityAssistant (testDeps payloads) ''custom-pod-affinity-b3dcb3863c'',
          podAffinityTermUsingAffinityAssistant (testDeps payloads) ''custom-pod-affinity-b3dcb3863c'']"
proof -
  have l: "index (Labels pinnedPod) ''tekton.dev/pipelineRun'' = Some ''wf-1''"
    by (simp add: pinnedPod_def index_def)
  have m: "index (Annotations pinnedPod) (AnnotationAffinityAssistantName (testDeps payloads)) = None"
    by (simp add: pinnedPod_def index_def)
  have r: "requiredRules pinnedPod = [zoneTerm]"
    by (simp add: requiredRules_def pinnedPod_def)
  from mutatePodAffinity_appends_rule [OF l m] r show ?thesis
    by (simp add: testDeps_simps getPodAffinityValue_test)
qed

section \<open>Properties of the reconcile path\<close>

lemma updates_append: "updates (xs @ ys) = updates xs @ updates ys"
  by (induction xs rule: updates.induct) simp_all

text \<open>
  Claim C8. For every key, when this replica does not lead, \<open>Reconcile\<close> returns the
  skip signal for the key and leaves the cluster as it was: no call is issued, neither a
  read nor a write.
\<close>

theorem Reconcile_not_leader_skips:
  assumes "\<not> leader w (key ac)"
  shows "Reconcile K ac k w = (Some (SkipKey k), w)"
  using assms by (simp add: Reconcile_def)

text \<open>
  Claim C8 at the sample cluster without leadership.
\<close>

theorem Reconcile_not_leader_skips_witness:
  "\<not> leader (testCluster False (testRegistration (Some testService))) (key testReconciler)
   \<and> Reconcile testK testReconciler ''pod-affinity.webhook'' (testCluster False (testRegistration (Some testService)))
       = (Some (SkipKey ''pod-affinity.webhook''), testCluster False (testRegistration (Some testService)))
   \<and> calls (snd (Reconcile testK testReconciler ''pod-affinity.webhook''
        (testCluster False (testRegistration (Some testService))))) = []"
proof -
  have l: "\<not> leader (testCluster False (testRegistration (Some testService))) (key testReconciler)"
    by (simp add: testCluster_def)
  have c: "calls (testCluster False (testRegistration (Some testService))) = []"
    by (simp add: testCluster_def)
  from Reconcile_not_leader_skips [OF l, of testK "''pod-affinity.webhook''"] l c
  show ?thesis by simp
qed

lemma reconcileWebhooks_missing_service:
  assumes "wh \<in> set whs" and "MutatingWebhook.Name wh = n" and "Service (ClientConfig wh) = None"
  shows "reconcileWebhooks K ac caCert n whs = Inl (MissingServiceReference n)"
  using assms
proof (induction whs)
  case Nil
  then show ?case by simp
next
  case (Cons x xs)
  show ?case
  proof (cases "MutatingWebhook.Name x = n")
    case False
    with Cons have "wh \<in> set xs" by auto
    with Cons False show ?thesis by simp
  next
    case True
    show ?thesis
    proof (cases "Service (ClientConfig x)")
      case None
      with True show ?thesis by simp
    next
      case (Some svc)
      with Cons have "wh \<in> set xs" by auto
      with Cons True Some show ?thesis by (simp add: Let_def)
    qed
  qed
qed

text \<open>
  Claim C9. When the observed registration has a webhook of its own name whose service
  reference is \<open>nil\<close> (and the steps before the loop succeed: leadership, the secret
  with its CA key, the registration, the namespace), \<open>Reconcile\<close> returns the error
  \<open>missing service reference for webhook\<close> with that name, issues no update and leaves
  the stored registration as it was.
\<close>

theorem Reconcile_missing_service:
  assumes "leader w (key ac)"
      and "secrets w (secretName ac) = Inr secret"
      and "index (Data secret) (CACert K) = Some caCert"
      and "registration w = Inr c"
      and "systemNamespace w = Inr ns"
      and "wh \<in> set (Webhooks c)"
      and "MutatingWebhook.Name wh = MutatingWebhookConfiguration.Name c"
      and "Service (ClientConfig wh) = None"
  shows "fst (Reconcile K ac k w) = Some (MissingServiceReference (MutatingWebhookConfiguration.Name c))
     \<and> updates (calls (snd (Reconcile K ac k w))) = updates (calls w)
     \<and> registration (snd (Reconcile K ac k w)) = registration w"
proof -
  have "desiredWebhook K ac caCert ns c = Inl (MissingServiceReference (MutatingWebhookConfiguration.Name c))"
    using reconcileWebhooks_missing_service [OF assms(6,7,8)]
    by (simp add: desiredWebhook_def)
  with assms(1-5) show ?thesis
    by (simp add: Reconcile_def reconcileMutatingWebhook_def issue_def updates_append)
qed

lemma testK_simps:
  "EnsureLabelSelectorExpressions testK = testEnsure"
  "SafeEqual testK a b = (a = b, None)"
  "CACert testK = ''ca-cert.pem''"
  "NewControllerRef testK ns
     = \<lparr>APIVersion = ''v1'', Kind = ''Namespace'', OwnerReference.Name = Namespace.Name ns,
        OwnerReference.UID = Namespace.UID ns, Controller = Some True, BlockOwnerDeletion = Some True\<rparr>"
  by (simp_all add: testK_def)

lemma filter_missing_again:
  "filter (\<lambda>e. e \<notin> set (held @ filter (\<lambda>e. e \<notin> set held) wanted)) wanted = []"
  by (auto simp add: filter_empty_conv)

lemma testEnsure_idem: "testEnsure (testEnsure s want) want = testEnsure s want"
proof (cases s)
  case None
  show ?thesis
  proof (cases want)
    case wn: None
    with None show ?thesis by (simp add: testEnsure_def)
  next
    case (Some c)
    have "filter (\<lambda>e. e \<notin> set es) es = []" for es :: "LabelSelectorRequirement list"
      by (simp add: filter_empty_conv)
    with None Some show ?thesis by (simp add: testEnsure_def Let_def)
  qed
next
  case (Some c)
  define held where "held = (case MatchExpressions c of None \<Rightarrow> [] | Some es \<Rightarrow> es)"
  define wanted where
    "wanted = (case want of None \<Rightarrow> []
               | Some s \<Rightarrow> (case MatchExpressions s of None \<Rightarrow> [] | Some es \<Rightarrow> es))"
  show ?thesis
  proof (cases "filter (\<lambda>e. e \<notin> set held) wanted = []")
    case True
    with Some show ?thesis
      by (simp add: testEnsure_def Let_def held_def wanted_def)
  next
    case False
    then have first: "testEnsure s want
             = Some (c\<lparr>MatchExpressions := Some (held @ filter (\<lambda>e. e \<notin> set held) wanted)\<rparr>)"
      using Some by (simp add: testEnsure_def Let_def held_def wanted_def)
    show ?thesis
      unfolding first
      using filter_missing_again [of held wanted]
      by (simp add: testEnsure_def Let_def wanted_def)
  qed
qed

lemma ensureIdempotent_testK: "ensureIdempotent testK"
  by (simp add: ensureIdempotent_def testK_simps testEnsure_idem)

lemma safeEqualReflexive_testK: "safeEqualReflexive testK"
  by (simp add: safeEqualReflexive_def testK_simps)

text \<open>
  Claim C9 at the sample registration whose webhook has no service reference.
\<close>

theorem Reconcile_missing_service_witness:
  "fst (Reconcile testK testReconciler ''pod-affinity.webhook'' (testCluster True (testRegistration None)))
     = Some (MissingServiceReference ''pod-affinity.webhook'')
   \<and> updates (calls (snd (Reconcile testK testReconciler ''pod-affinity.webhook''
        (testCluster True (testRegistration None))))) = []"
proof -
  let ?w = "testCluster True (testRegistration None)"
  have 1: "leader ?w (key testReconciler)" by (simp add: testCluster_def)
  have 2: "secrets ?w (secretName testReconciler) = Inr \<lparr>Data = Some [''ca-cert.pem'' \<mapsto> Some ''fresh-ca'']\<rparr>"
    by (simp add: testCluster_def testReconciler_def)
  have 3: "index (Data \<lparr>Data = Some [''ca-cert.pem'' \<mapsto> Some ''fresh-ca'']\<rparr>) (CACert testK) = Some (Some ''fresh-ca'')"
    by (simp add: index_def testK_simps)
  have 4: "registration ?w = Inr (testRegistration None)" by (simp add: testCluster_def)
  have 5: "systemNamespace ?w = Inr \<lparr>Namespace.Name = ''tekton-pipelines'', Namespace.UID = ''0f3c''\<rparr>"
    by (simp add: testCluster_def)
  have 6: "testWebhook None \<in> set (Webhooks (testRegistration None))"
    by (simp add: testRegistration_def)
  have 7: "MutatingWebhook.Name (testWebhook None) = MutatingWebhookConfiguration.Name (testRegistration None)"
    by (simp add: testRegistration_def testWebhook_def)
  have 8: "Service (ClientConfig (testWebhook None)) = None"
    by (simp add: testWebhook_def)
  have 9: "calls ?w = []" by (simp add: testCluster_def)
  have 10: "MutatingWebhookConfiguration.Name (testRegistration None) = ''pod-affinity.webhook''"
    by (simp add: testRegistration_def)
  from Reconcile_missing_service [OF 1 2 3 4 5 6 7 8, of "''pod-affinity.webhook''"] 9 10
  show ?thesis by simp
qed

lemma reconcileWebhooks_idem:
  assumes "ensureIdempotent K"
  shows "reconcileWebhooks K ac caCert n whs = Inr whs' \<Longrightarrow>
         reconcileWebhooks K ac caCert n whs' = Inr whs'"
proof (induction whs arbitrary: whs')
  case Nil
  then show ?case by simp
next
  case (Cons x xs)
  show ?case
  proof (cases "MutatingWebhook.Name x = n")
    case False
    with Cons.prems obtain ys where ys: "reconcileWebhooks K ac caCert n xs = Inr ys" "whs' = x # ys"
      by (auto split: sum.splits)
    from Cons.IH [OF ys(1)] False ys(2) show ?thesis by simp
  next
    case True
    with Cons.prems obtain svc where svc: "Service (ClientConfig x) = Some svc"
      by (cases "Service (ClientConfig x)") (auto simp add: Let_def)
    with Cons.prems True obtain ys where ys: "reconcileWebhooks K ac caCert n xs = Inr ys"
      and w: "whs' = x\<lparr>Rules := rules,
                 NamespaceSelector := EnsureLabelSelectorExpressions K (NamespaceSelector x) excludeSelector,
                 ClientConfig := (ClientConfig x)\<lparr>CABundle := caCert,
                                    Service := Some (svc\<lparr>Path := Some (path ac)\<rparr>)\<rparr>,
                 ReinvocationPolicy := Some ''IfNeeded''\<rparr> # ys"
      by (auto simp add: Let_def split: sum.splits)
    have e: "EnsureLabelSelectorExpressions K
               (EnsureLabelSelectorExpressions K (NamespaceSelector x) excludeSelector) excludeSelector
             = EnsureLabelSelectorExpressions K (NamespaceSelector x) excludeSelector"
      using assms by (simp add: ensureIdempotent_def)
    from Cons.IH [OF ys] True show ?thesis
      unfolding w by (simp add: Let_def e)
  qed
qed

lemma desiredWebhook_idem:
  assumes "ensureIdempotent K" and "desiredWebhook K ac caCert ns c = Inr d"
  shows "desiredWebhook K ac caCert ns d = Inr d"
proof -
  from assms(2) obtain whs where
    whs: "reconcileWebhooks K ac caCert (MutatingWebhookConfiguration.Name c) (Webhooks c) = Inr whs"
    and d: "d = c\<lparr>OwnerReferences := [NewControllerRef K ns], Webhooks := whs\<rparr>"
    by (auto simp add: desiredWebhook_def split: sum.splits)
  from reconcileWebhooks_idem [OF assms(1) whs] show ?thesis
    unfolding d by (simp add: desiredWebhook_def)
qed

lemma desiredWebhook_test:
  "desiredWebhook testK testReconciler (Some ''fresh-ca'')
     \<lparr>Namespace.Name = ''tekton-pipelines'', Namespace.UID = ''0f3c''\<rparr>
     (testRegistration (Some testService)) = Inr freshRegistration"
  by (simp add: desiredWebhook_def testRegistration_def testWebhook_def testService_def
      testReconciler_def testK_simps testEnsure_def freshRegistration_def)

lemma testRegistration_stale: "freshRegistration \<noteq> testRegistration (Some testService)"
  by (simp add: freshRegistration_def testRegistration_def)

text \<open>
  Claim C7, as amended. Two calls of \<open>Reconcile\<close> in a row, with nothing else changing
  the cluster, return the same result and issue the same calls, at most one update each,
  and change nothing but the log of calls: \<open>Reconcile\<close> does not change what the lister
  answers, so the second call repeats the update of the first. With a merge of the
  exclusion selector that is idempotent and a \<open>kmp.SafeEqual\<close> that finds a registration
  equal to itself, a call that finds the lister answering with the registration the
  previous call wrote returns \<open>nil\<close> and issues no update; and when the observed
  registration is already the desired one, the call issues no update.
\<close>

theorem Reconcile_idempotent:
  assumes ens: "ensureIdempotent K" and refl: "safeEqualReflexive K"
      and r1: "Reconcile K ac k w = (r1, w1)"
      and r2: "Reconcile K ac k w1 = (r2, w2)"
  shows "r2 = r1
     \<and> w1 = w\<lparr>calls := calls w @ issued w w1\<rparr>
     \<and> w2 = w1\<lparr>calls := calls w1 @ issued w w1\<rparr>
     \<and> length (updates (issued w w1)) \<le> 1
     \<and> (\<forall>d. updates (issued w w1) = [d] \<longrightarrow>
           fst (Reconcile K ac k (w1\<lparr>registration := Inr d\<rparr>)) = None
           \<and> updates (issued (w1\<lparr>registration := Inr d\<rparr>)
                 (snd (Reconcile K ac k (w1\<lparr>registration := Inr d\<rparr>)))) = [])
     \<and> (\<forall>secret caCert ns c.
           secrets w (secretName ac) = Inr secret \<and> index (Data secret) (CACert K) = Some caCert
           \<and> systemNamespace w = Inr ns \<and> registration w = Inr c
           \<and> desiredWebhook K ac caCert ns c = Inr c
           \<longrightarrow> updates (issued w w1) = [])"
proof -
  note defs = Reconcile_def reconcileMutatingWebhook_def issue_def issued_def Let_def updates_append
  show ?thesis
  proof (cases "leader w (key ac)")
    case False
    with r1 r2 show ?thesis by (auto simp add: defs)
  next
    case lead: True
    show ?thesis
    proof (cases "secrets w (secretName ac)")
      case (Inl err)
      with lead r1 r2 show ?thesis by (auto simp add: defs)
    next
      case sec: (Inr secret)
      show ?thesis
      proof (cases "index (Data secret) (CACert K)")
        case None
        with lead sec r1 r2 show ?thesis by (auto simp add: defs)
      next
        case ca: (Some caCert)
        show ?thesis
        proof (cases "registration w")
          case (Inl err)
          with lead sec ca r1 r2 show ?thesis by (auto simp add: defs)
        next
          case reg: (Inr c)
          show ?thesis
          proof (cases "systemNamespace w")
            case (Inl err)
            with lead sec ca reg r1 r2 show ?thesis by (auto simp add: defs)
          next
            case nsp: (Inr ns)
            show ?thesis
            proof (cases "desiredWebhook K ac caCert ns c")
              case (Inl e)
              with lead sec ca reg nsp r1 r2 show ?thesis by (auto simp add: defs)
            next
              case des: (Inr d)
              obtain ok err where se: "SafeEqual K c d = (ok, err)" by (cases "SafeEqual K c d")
              have same: "d = c \<Longrightarrow> ok \<and> err = None"
                using refl se by (auto simp add: safeEqualReflexive_def)
              show ?thesis
              proof (cases err)
                case (Some e)
                with lead sec ca reg nsp des se same r1 r2 show ?thesis by (auto simp add: defs)
              next
                case noerr: None
                show ?thesis
                proof (cases ok)
                  case True
                  with lead sec ca reg nsp des se noerr r1 r2 show ?thesis by (auto simp add: defs)
                next
                  case differ: False
                  have again: "desiredWebhook K ac caCert ns d = Inr d"
                    using ens des by (rule desiredWebhook_idem)
                  have eq: "SafeEqual K d d = (True, None)"
                    using refl by (simp add: safeEqualReflexive_def)
                  from same differ have ne: "d \<noteq> c" by blast
                  from lead sec ca reg nsp des se noerr differ r1
                  have w1: "w1 = w\<lparr>calls := calls w @ [SecretGet (secretName ac), WebhookGet (key ac),
                                                    NamespaceGet, WebhookUpdate d]\<rparr>"
                    and r1': "r1 = (case updateError w of None \<Rightarrow> None | Some e \<Rightarrow> Some (UpdateWebhook e))"
                    by (auto simp add: defs split: option.splits)
                  from r2 lead sec ca reg nsp des se noerr differ
                  have w2: "w2 = w1\<lparr>calls := calls w1 @ [SecretGet (secretName ac), WebhookGet (key ac),
                                                    NamespaceGet, WebhookUpdate d]\<rparr>"
                    and r2': "r2 = (case updateError w of None \<Rightarrow> None | Some e \<Rightarrow> Some (UpdateWebhook e))"
                    unfolding w1 by (auto simp add: defs split: option.splits)
                  have i: "issued w w1 = [SecretGet (secretName ac), WebhookGet (key ac),
                                           NamespaceGet, WebhookUpdate d]"
                    unfolding w1 by (simp add: issued_def)
                  have third: "Reconcile K ac k (w1\<lparr>registration := Inr d\<rparr>)
                                 = (None, w1\<lparr>registration := Inr d,
                                            calls := calls w1 @ [SecretGet (secretName ac), WebhookGet (key ac),
                                                                 NamespaceGet]\<rparr>)"
                    using lead sec ca nsp again eq unfolding w1 by (simp add: defs)
                  have t: "fst (Reconcile K ac k (w1\<lparr>registration := Inr d\<rparr>)) = None"
                    "updates (issued (w1\<lparr>registration := Inr d\<rparr>)
                       (snd (Reconcile K ac k (w1\<lparr>registration := Inr d\<rparr>)))) = []"
                    unfolding third by (simp_all add: issued_def)
                  from w1 r1' w2 r2' i t ne reg sec ca nsp des show ?thesis
                    by auto
                qed
              qed
            qed
          qed
        qed
      qed
    qed
  qed
qed

lemma Reconcile_test_stale:
  "Reconcile testK testReconciler ''pod-affinity.webhook''
     ((testCluster True (testRegistration (Some testService)))\<lparr>calls := cs\<rparr>)
   = (None, (testCluster True (testRegistration (Some testService)))
        \<lparr>calls := cs @ [SecretGet ''webhook-certs'', WebhookGet ''pod-affinity.webhook'', NamespaceGet,
                        WebhookUpdate freshRegistration]\<rparr>)"
proof -
  let ?w = "testCluster True (testRegistration (Some testService))"
  have s: "secrets ?w ''webhook-certs'' = Inr \<lparr>Data = Some [''ca-cert.pem'' \<mapsto> Some ''fresh-ca'']\<rparr>"
    by (simp add: testCluster_def)
  have n: "systemNamespace ?w = Inr \<lparr>Namespace.Name = ''tekton-pipelines'', Namespace.UID = ''0f3c''\<rparr>"
    by (simp add: testCluster_def)
  have r: "registration ?w = Inr (testRegistration (Some testService))"
    by (simp add: testCluster_def)
  have l: "leader ?w ''pod-affinity.webhook''"
    by (simp add: testCluster_def)
  have u: "updateError ?w = None"
    by (simp add: testCluster_def)
  have k: "key testReconciler = ''pod-affinity.webhook''" "secretName testReconciler = ''webhook-certs''"
    by (simp_all add: testReconciler_def)
  show ?thesis
    using testRegistration_stale
    by (simp add: Reconcile_def reconcileMutatingWebhook_def issue_def Let_def k s n r l u
        index_def testK_simps desiredWebhook_test)
qed

lemma Reconcile_test_stale_start:
  "Reconcile testK testReconciler ''pod-affinity.webhook''
     (testCluster True (testRegistration (Some testService)))
   = (None, (testCluster True (testRegistration (Some testService)))
        \<lparr>calls := [SecretGet ''webhook-certs'', WebhookGet ''pod-affinity.webhook'', NamespaceGet,
                   WebhookUpdate freshRegistration]\<rparr>)"
proof -
  have "(testCluster True (testRegistration (Some testService)))\<lparr>calls := []\<rparr>
          = testCluster True (testRegistration (Some testService))"
    by (simp add: testCluster_def)
  with Reconcile_test_stale [of "[]"] show ?thesis by simp
qed

text \<open>
  Claim C7, as amended, at the sample cluster, whose registration has a stale CA bundle:
  the first call returns \<open>nil\<close> after one update with the desired registration; once the
  lister answers with that registration, the next call returns \<open>nil\<close> and issues no
  update.
\<close>

theorem Reconcile_idempotent_witness:
  "fst (Reconcile testK testReconciler ''pod-affinity.webhook''
          (testCluster True (testRegistration (Some testService)))) = None
   \<and> updates (issued (testCluster True (testRegistration (Some testService)))
        (snd (Reconcile testK testReconciler ''pod-affinity.webhook''
          (testCluster True (testRegistration (Some testService)))))) = [freshRegistration]
   \<and> fst (Reconcile testK testReconciler ''pod-affinity.webhook''
          ((snd (Reconcile testK testReconciler ''pod-affinity.webhook''
             (testCluster True (testRegistration (Some testService)))))
           \<lparr>registration := Inr freshRegistration\<rparr>)) = None
   \<and> updates (issued
        ((snd (Reconcile testK testReconciler ''pod-affinity.webhook''
             (testCluster True (testRegistration (Some testService)))))
           \<lparr>registration := Inr freshRegistration\<rparr>)
        (snd (Reconcile testK testReconciler ''pod-affinity.webhook''
          ((snd (Reconcile testK testReconciler ''pod-affinity.webhook''
             (testCluster True (testRegistration (Some testService)))))
           \<lparr>registration := Inr freshRegistration\<rparr>)))) = []"
proof -
  let ?w = "testCluster True (testRegistration (Some testService))"
  let ?w1 = "snd (Reconcile testK testReconciler ''pod-affinity.webhook'' ?w)"
  have a: "Reconcile testK testReconciler ''pod-affinity.webhook'' ?w
             = (fst (Reconcile testK testReconciler ''pod-affinity.webhook'' ?w), ?w1)"
    by simp
  have b: "Reconcile testK testReconciler ''pod-affinity.webhook'' ?w1
             = (fst (Reconcile testK testReconciler ''pod-affinity.webhook'' ?w1),
                snd (Reconcile testK testReconciler ''pod-affinity.webhook'' ?w1))"
    by simp
  have f: "fst (Reconcile testK testReconciler ''pod-affinity.webhook'' ?w) = None"
    by (simp add: Reconcile_test_stale_start)
  have c: "calls ?w = []"
    by (simp add: testCluster_def)
  have u: "updates (issued ?w ?w1) = [freshRegistration]"
    by (simp add: Reconcile_test_stale_start issued_def c)
  from Reconcile_idempotent [OF ensureIdempotent_testK safeEqualReflexive_testK a b] f u
  show ?thesis by blast
qed

text \<open>
  Claim C7 as stated fails while the lister still answers with the stale registration:
  nothing changes between the two calls, both return \<open>nil\<close>, and the second issues the
  update again.
\<close>

theorem Reconcile_stale_lister_counterexample:
  "fst (Reconcile testK testReconciler ''pod-affinity.webhook''
          (testCluster True (testRegistration (Some testService)))) = None
   \<and> fst (Reconcile testK testReconciler ''pod-affinity.webhook''
          (snd (Reconcile testK testReconciler ''pod-affinity.webhook''
             (testCluster True (testRegistration (Some testService)))))) = None
   \<and> updates (calls (testCluster True (testRegistration (Some testService)))) = []
   \<and> updates (calls (snd (Reconcile testK testReconciler ''pod-affinity.webhook''
          (testCluster True (testRegistration (Some testService)))))) = [freshRegistration]
   \<and> updates (calls (snd (Reconcile testK testReconciler ''pod-affinity.webhook''
          (snd (Reconcile testK testReconciler ''pod-affinity.webhook''
             (testCluster True (testRegistration (Some testService)))))))) = [freshRegistration, freshRegistration]"
proof -
  have c: "calls (testCluster True (testRegistration (Some testService))) = []"
    by (simp add: testCluster_def)
  show ?thesis
    by (simp add: Reconcile_test_stale_start Reconcile_test_stale c)
qed

text \<open>
  A \<open>nil\<close> CA bundle and an empty certificate are told apart: at the cluster whose
  lister answers with a \<open>nil\<close> bundle and whose secret holds an empty certificate, the
  registration is updated.
\<close>

lemma Reconcile_empty_certificate_nil_bundle:
  "Reconcile testK testReconciler ''pod-affinity.webhook'' emptyCertCluster
   = (None, emptyCertCluster
        \<lparr>calls := [SecretGet ''webhook-certs'', WebhookGet ''pod-affinity.webhook'', NamespaceGet,
                   WebhookUpdate (bundleRegistration (Some ''''))]\<rparr>)"
proof -
  have d: "desiredWebhook testK testReconciler (Some '''')
             \<lparr>Namespace.Name = ''tekton-pipelines'', Namespace.UID = ''0f3c''\<rparr>
             (bundleRegistration None) = Inr (bundleRegistration (Some ''''))"
    by (simp add: desiredWebhook_def bundleRegistration_def freshRegistration_def
        testReconciler_def testK_simps testEnsure_def excludeSelector_def Let_def)
  have ne: "bundleRegistration (Some '''') \<noteq> bundleRegistration None"
    by (simp add: bundleRegistration_def freshRegistration_def)
  have s: "secrets emptyCertCluster ''webhook-certs'' = Inr \<lparr>Data = Some [''ca-cert.pem'' \<mapsto> Some '''']\<rparr>"
    by (simp add: emptyCertCluster_def)
  have n: "systemNamespace emptyCertCluster
             = Inr \<lparr>Namespace.Name = ''tekton-pipelines'', Namespace.UID = ''0f3c''\<rparr>"
    by (simp add: emptyCertCluster_def testCluster_def)
  have r: "registration emptyCertCluster = Inr (bundleRegistration None)"
    by (simp add: emptyCertCluster_def testCluster_def)
  have l: "leader emptyCertCluster ''pod-affinity.webhook''"
    by (simp add: emptyCertCluster_def testCluster_def)
  have u: "updateError emptyCertCluster = None" "calls emptyCertCluster = []"
    by (simp_all add: emptyCertCluster_def testCluster_def)
  have k: "key testReconciler = ''pod-affinity.webhook''" "secretName testReconciler = ''webhook-certs''"
    by (simp_all add: testReconciler_def)
  show ?thesis
    using ne
    by (simp add: Reconcile_def reconcileMutatingWebhook_def issue_def Let_def k s n r l u
        index_def testK_simps d)
qed

end
